theory Spec2Isabelle
  imports Main "HOL-Library.AList"
begin

section \<open>Configuration values and Python's operations on them\<close>

text \<open>
  A transport configuration is a Python \<^verbatim>\<open>dict\<close> read from JSON. Its values are the
  JSON values; a dict is an association list (keys in insertion order), looked up with
  \<^const>\<open>map_of\<close> and written with \<^const>\<open>AList.update\<close>, which overwrites a key in place
  and appends a new one, as a Python dict does. Numbers are integers.
\<close>

datatype pyval =
    PNone
  | PBool bool
  | PInt int
  | PStr string
  | PList "pyval list"
  | PDict "(string \<times> pyval) list"

type_synonym config = "(string \<times> pyval) list"

text \<open>
  The exceptions the module raises. The five \<^verbatim>\<open>raise Exception(...)\<close> of
  \<^verbatim>\<open>endpoint.py\<close> each have a constructor of their own, carrying what the message
  formats; the built-in exceptions carry no message.
\<close>

datatype error =
    InvalidEndpointType pyval
      \<comment> \<open>\<^verbatim>\<open>Exception("invalid endpoint type '{}'".format(config['type']))\<close>\<close>
  | InvalidTCPVersion int
      \<comment> \<open>\<^verbatim>\<open>Exception("invalid TCP protocol version {}".format(version))\<close>\<close>
  | TLSOnIPv6NotImplemented
      \<comment> \<open>\<^verbatim>\<open>Exception("TLS on IPv6 not implemented")\<close>\<close>
  | TLSNotAvailable string
      \<comment> \<open>\<^verbatim>\<open>Exception("TLS transport requested, but TLS packages not available:\n{}")\<close>\<close>
  | ClientKeyWithoutCertificate
      \<comment> \<open>\<^verbatim>\<open>Exception('TLS client key present, but certificate missing')\<close>\<close>
  | KeyError string
  | TypeError
  | ValueError
  | AttributeError
  | IOError string
      \<comment> \<open>\<^verbatim>\<open>open\<close> failed on this path\<close>
  | NetworkError
      \<comment> \<open>no free port in the range (the helper of \<^verbatim>\<open>crossbar._util\<close>)\<close>
  | LibraryError string
      \<comment> \<open>raised inside Twisted, pyOpenSSL, txtorcon or the operating system\<close>

definition py_in :: "string \<Rightarrow> config \<Rightarrow> bool" where
  "py_in k d = (map_of d k \<noteq> None)"

definition py_getitem :: "config \<Rightarrow> string \<Rightarrow> error + pyval" where
  "py_getitem d k = (case map_of d k of None \<Rightarrow> Inl (KeyError k) | Some v \<Rightarrow> Inr v)"

definition py_get :: "config \<Rightarrow> string \<Rightarrow> pyval \<Rightarrow> pyval" where
  "py_get d k dflt = (case map_of d k of None \<Rightarrow> dflt | Some v \<Rightarrow> v)"

definition py_setitem :: "config \<Rightarrow> string \<Rightarrow> pyval \<Rightarrow> config" where
  "py_setitem d k v = AList.update k v d"

text \<open>Subscripting with a string key raises TypeError on everything but a dict.\<close>

definition as_dict :: "pyval \<Rightarrow> error + config" where
  "as_dict v = (case v of PDict d \<Rightarrow> Inr d | _ \<Rightarrow> Inl TypeError)"

text \<open>\<^verbatim>\<open>for x in v\<close>: a list gives its items, a string its characters, a dict its keys.\<close>

definition py_iter :: "pyval \<Rightarrow> error + pyval list" where
  "py_iter v =
     (case v of
        PList xs \<Rightarrow> Inr xs
      | PStr s \<Rightarrow> Inr (map (\<lambda>c. PStr [c]) s)
      | PDict d \<Rightarrow> Inr (map (\<lambda>kv. PStr (fst kv)) d)
      | _ \<Rightarrow> Inl TypeError)"

definition py_truthy :: "pyval \<Rightarrow> bool" where
  "py_truthy v =
     (case v of
        PNone \<Rightarrow> False
      | PBool b \<Rightarrow> b
      | PInt n \<Rightarrow> n \<noteq> 0
      | PStr s \<Rightarrow> s \<noteq> []
      | PList xs \<Rightarrow> xs \<noteq> []
      | PDict d \<Rightarrow> d \<noteq> [])"

definition py_isspace :: "char \<Rightarrow> bool" where
  "py_isspace c =
     (let n = (of_char c :: nat)
      in (9 \<le> n \<and> n \<le> 13) \<or> (28 \<le> n \<and> n \<le> 32) \<or> n = 133 \<or> n = 160)"

definition py_strip :: "string \<Rightarrow> string" where
  "py_strip s = rev (dropWhile py_isspace (rev (dropWhile py_isspace s)))"

text \<open>\<^verbatim>\<open>x.strip()\<close> exists on strings only.\<close>

definition py_strip_val :: "pyval \<Rightarrow> error + string" where
  "py_strip_val v = (case v of PStr s \<Rightarrow> Inr (py_strip s) | _ \<Rightarrow> Inl AttributeError)"

text \<open>\<^verbatim>\<open>os.path.join(a, p)\<close> for two components, \<^verbatim>\<open>a\<close> a string.\<close>

definition path_join :: "string \<Rightarrow> pyval \<Rightarrow> error + string" where
  "path_join a v =
     (case v of
        PStr p \<Rightarrow>
          Inr (if p \<noteq> [] \<and> hd p = CHR ''/'' then p
               else if a = [] \<or> last a = CHR ''/'' then a @ p
               else a @ ''/'' @ p)
      | _ \<Rightarrow> Inl TypeError)"

definition isabs :: "string \<Rightarrow> bool" where
  "isabs p = (p \<noteq> [] \<and> hd p = CHR ''/'')"

section \<open>What the module builds\<close>

text \<open>
  Objects made by the libraries are opaque: a loaded private key, a loaded certificate,
  Diffie-Hellman parameters, a Tor control connection. A TLS context is represented by
  the keyword arguments its constructor accepted (\<^verbatim>\<open>CertificateOptions\<close> for a
  server, \<^verbatim>\<open>optionsForClientTLS\<close> for a client).
\<close>

datatype pkey = PKey string
datatype x509 = X509 string
datatype dh_params = DHParams string
datatype private_certificate = PrivateCertificate x509 pkey
datatype tls_version = SSLv3 | TLSv1_0 | TLSv1_1 | TLSv1_2 | TLSv1_3

record tls_server_context =
  privateKey :: pkey
  certificate :: x509
  extraCertChain :: "x509 list option"
  verify :: bool
  caCerts :: "x509 list option"
  dhParameters :: "dh_params option"
  acceptableCiphers :: "string list"
  raiseMinimumTo :: tls_version
  enableSingleUseKeys :: bool
  enableSessions :: bool
  enableSessionTickets :: bool
  fixBrokenPeers :: bool

record tls_client_context =
  hostname :: pyval
  trustRoot :: "x509 list option"
  clientCertificate :: "private_certificate option"

datatype client_endpoint =
    TCP4ClientEndpoint string pyval int
      \<comment> \<open>host, port, timeout\<close>
  | TCP6ClientEndpoint string pyval int
  | SSL4ClientEndpoint string pyval tls_client_context int
      \<comment> \<open>host, port, context, timeout\<close>
  | UNIXClientEndpoint string int
      \<comment> \<open>path, timeout\<close>
  | ClientFromString string
      \<comment> \<open>what \<^verbatim>\<open>clientFromString\<close> returned\<close>
  | TorClientEndpoint pyval pyval client_endpoint pyval
      \<comment> \<open>host, port, socks endpoint, use_tls\<close>

record ephemeral_onion =
  onion_port :: pyval
  private_key_fname :: string
  tor_control_ep :: client_endpoint
  onion_version :: pyval
  private_key :: "string option"

datatype server_endpoint =
    TCP4ServerEndpoint pyval int string
      \<comment> \<open>port, backlog, interface\<close>
  | TCP6ServerEndpoint pyval int string
  | SSL4ServerEndpoint pyval tls_server_context int string
      \<comment> \<open>port, context, backlog, interface\<close>
  | UNIXServerEndpoint string int
      \<comment> \<open>path, backlog\<close>
  | ServerFromString string
      \<comment> \<open>what \<^verbatim>\<open>serverFromString\<close> returned\<close>
  | EphemeralOnion ephemeral_onion

datatype custom_port =
    CustomTCPPort int int string pyval pyval
      \<comment> \<open>port, backlog, interface, shared, user_timeout\<close>
  | CustomTCPTLSPort int tls_server_context int string pyval pyval
      \<comment> \<open>port, context, backlog, interface, shared, user_timeout\<close>

datatype listening_port =
    BoundPort int
      \<comment> \<open>a port an endpoint's \<^verbatim>\<open>listen\<close> gave; the number is \<^verbatim>\<open>getHost().port\<close>\<close>
  | Started custom_port
      \<comment> \<open>a shared port after \<^verbatim>\<open>startListening()\<close>\<close>

datatype connection = Connection nat
datatype tor = Tor nat

record onion_service =
  hs_private_key :: string
  hs_hostname :: string
  hs_ports :: "string list"

text \<open>A Deferred, by the result it fires with.\<close>

datatype 'a deferred = Fired 'a | Failed error

section \<open>The world: files and effects\<close>

datatype fentry =
    Regular string
  | Unreadable
      \<comment> \<open>exists, but \<^verbatim>\<open>open\<close> fails on it: a directory, or no permission\<close>

datatype level = Info | Warn

datatype event =
    Log level string
  | FileRead string
  | FileWrite string string
  | FileRemove string
  | EndpointListen server_endpoint
  | EndpointConnect client_endpoint
  | PortStartListening custom_port
  | TorControlConnect client_endpoint
  | TorCreateOnionService "(pyval \<times> int) list" "string option" pyval

record world =
  fs :: "string \<Rightarrow> fentry option"
  events :: "event list"

text \<open>
  What the module takes from its surroundings and does not change: the two globals set
  at import, the process environment, and the outcomes of the library calls.
\<close>

record env =
  has_tls :: bool
  lacks_tls_msg :: string
  environ :: "string \<Rightarrow> string option"
  abspath :: "string \<Rightarrow> string"
  expandvars :: "string \<Rightarrow> string"
  int_of_str :: "string \<Rightarrow> int option"
  str_of_val :: "pyval \<Rightarrow> string"
  KeyPair_load :: "string \<Rightarrow> error + pkey"
  Certificate_loadPEM :: "string \<Rightarrow> error + x509"
  load_certificate :: "string \<Rightarrow> error + x509"
  fromCertificateAndKeyPair :: "x509 \<Rightarrow> pkey \<Rightarrow> error + private_certificate"
  DiffieHellmanParameters_fromFile :: "string \<Rightarrow> error + dh_params"
  fromOpenSSLCipherString :: "string \<Rightarrow> error + string list"
  client_options_rejected ::
    "string \<Rightarrow> x509 list option \<Rightarrow> private_certificate option \<Rightarrow> error option"
  serverFromString :: "pyval \<Rightarrow> error + string"
  clientFromString :: "pyval \<Rightarrow> error + string"
  can_create :: "string \<Rightarrow> bool"
  port_free :: "pyval \<Rightarrow> int \<Rightarrow> bool"
  os_free_port :: "pyval \<Rightarrow> error + int"
  endpoint_listen :: "server_endpoint \<Rightarrow> error + int"
  endpoint_connect :: "client_endpoint \<Rightarrow> error + connection"
  start_listening :: "custom_port \<Rightarrow> error option"
  txtorcon_connect :: "client_endpoint \<Rightarrow> error + tor"
  create_onion_service ::
    "tor \<Rightarrow> (pyval \<times> int) list \<Rightarrow> string option \<Rightarrow> pyval \<Rightarrow> error + onion_service"

text \<open>\<^verbatim>\<open>int(v)\<close> and \<^verbatim>\<open>str(v)\<close>.\<close>

definition py_int :: "env \<Rightarrow> pyval \<Rightarrow> error + int" where
  "py_int env v =
     (case v of
        PInt n \<Rightarrow> Inr n
      | PBool b \<Rightarrow> Inr (if b then 1 else 0)
      | PStr s \<Rightarrow> (case int_of_str env s of None \<Rightarrow> Inl ValueError | Some n \<Rightarrow> Inr n)
      | _ \<Rightarrow> Inl TypeError)"

definition py_str :: "env \<Rightarrow> pyval \<Rightarrow> string" where
  "py_str env v = (case v of PStr s \<Rightarrow> s | _ \<Rightarrow> str_of_val env v)"

subsection \<open>Sequencing with exceptions\<close>

type_synonym 'a io = "world \<Rightarrow> (error + 'a) \<times> world"

definition ok :: "'a \<Rightarrow> 'a io" where
  "ok x w = (Inr x, w)"

definition raise :: "error \<Rightarrow> 'a io" where
  "raise e w = (Inl e, w)"

definition lift :: "error + 'a \<Rightarrow> 'a io" where
  "lift r w = (r, w)"

definition andThen :: "'a io \<Rightarrow> ('a \<Rightarrow> 'b io) \<Rightarrow> 'b io" where
  "andThen m f w = (case m w of (Inl e, w') \<Rightarrow> (Inl e, w') | (Inr x, w') \<Rightarrow> f x w')"

definition emit :: "event \<Rightarrow> unit io" where
  "emit ev w = (Inr (), w\<lparr>events := events w @ [ev]\<rparr>)"

definition log_info :: "string \<Rightarrow> unit io" where
  "log_info msg = emit (Log Info msg)"

definition log_warn :: "string \<Rightarrow> unit io" where
  "log_warn msg = emit (Log Warn msg)"

definition exists :: "string \<Rightarrow> world \<Rightarrow> bool" where
  "exists path w = (fs w path \<noteq> None)"

text \<open>\<^verbatim>\<open>open(path).read()\<close>.\<close>

definition open_read :: "string \<Rightarrow> string io" where
  "open_read path w =
     (case fs w path of
        Some (Regular content) \<Rightarrow> (Inr content, w\<lparr>events := events w @ [FileRead path]\<rparr>)
      | _ \<Rightarrow> (Inl (IOError path), w))"

text \<open>\<^verbatim>\<open>open(path, 'w').write(content)\<close>, on a path that may not be creatable.\<close>

definition open_write :: "env \<Rightarrow> string \<Rightarrow> string \<Rightarrow> unit io" where
  "open_write env path content w =
     (if fs w path = Some Unreadable \<or> (fs w path = None \<and> \<not> can_create env path)
      then (Inl (IOError path), w)
      else (Inr (), w\<lparr>fs := (fs w)(path \<mapsto> Regular content),
                      events := events w @ [FileWrite path content]\<rparr>))"

text \<open>\<^verbatim>\<open>FilePath(p).path\<close>: the constructor makes the path absolute.\<close>

definition FilePath :: "env \<Rightarrow> string \<Rightarrow> string" where
  "FilePath env p = abspath env p"

text \<open>\<^verbatim>\<open>FilePath.remove()\<close>.\<close>

definition remove :: "string \<Rightarrow> unit io" where
  "remove path w =
     (Inr (), w\<lparr>fs := (fs w)(path := None), events := events w @ [FileRemove path]\<rparr>)"

subsection \<open>The constructors of the TLS contexts\<close>

text \<open>
  Twisted's \<^verbatim>\<open>CertificateOptions\<close> checks the arguments it is given: it raises
  \<^verbatim>\<open>ValueError\<close> when verification is asked for and no CA certificate comes with it,
  and when the acceptable ciphers hold no usable cipher.
\<close>

definition CertificateOptions :: "tls_server_context \<Rightarrow> error + tls_server_context" where
  "CertificateOptions kwargs =
     (if verify kwargs \<and> (caCerts kwargs = None \<or> caCerts kwargs = Some [])
      then Inl ValueError
      else if acceptableCiphers kwargs = [] then Inl ValueError
      else Inr kwargs)"

text \<open>
  Twisted's \<^verbatim>\<open>optionsForClientTLS\<close> raises \<^verbatim>\<open>TypeError\<close> for a host name that is
  not text; on text, the library may still refuse the name or the certificates.
\<close>

definition optionsForClientTLS ::
    "env \<Rightarrow> pyval \<Rightarrow> x509 list option \<Rightarrow> private_certificate option
       \<Rightarrow> error + tls_client_context" where
  "optionsForClientTLS env host trust cert =
     (case host of
        PStr name \<Rightarrow>
          (case client_options_rejected env name trust cert of
             Some e \<Rightarrow> Inl e
           | None \<Rightarrow> Inr \<lparr> hostname = host, trustRoot = trust, clientCertificate = cert \<rparr>)
      | _ \<Rightarrow> Inl TypeError)"

section \<open>The TLS server context\<close>

text \<open>
  The two loops of \<^verbatim>\<open>_create_tls_server_context\<close> over \<^verbatim>\<open>chain_certificates\<close> and
  \<^verbatim>\<open>ca_certificates\<close> have one body: resolve the path, open the file, load the PEM,
  append, log. They differ in the message logged.
\<close>

fun load_server_certs :: "env \<Rightarrow> string \<Rightarrow> string \<Rightarrow> pyval list \<Rightarrow> x509 list \<Rightarrow> x509 list io" where
  "load_server_certs env cbdir msg [] acc = ok acc"
| "load_server_certs env cbdir msg (fname # rest) acc =
     andThen (lift (path_join cbdir fname)) (\<lambda>p.
     andThen (open_read (abspath env p)) (\<lambda>pem.
     andThen (lift (Certificate_loadPEM env pem)) (\<lambda>c.
     andThen (log_info msg) (\<lambda>_.
     load_server_certs env cbdir msg rest (acc @ [c])))))"

definition default_ciphers :: string where
  "default_ciphers =
     ''ECDHE-RSA-AES128-GCM-SHA256:'' @
     ''DHE-RSA-AES128-GCM-SHA256:'' @
     ''ECDHE-RSA-AES128-SHA256:'' @
     ''DHE-RSA-AES128-SHA256:'' @
     ''ECDHE-RSA-AES128-SHA:'' @
     ''DHE-RSA-AES128-SHA:''"

text \<open>
  An OpenSSL cipher string is a list of cipher names separated by colons; the names it
  holds are its non-empty fields.
\<close>

fun split_on :: "char \<Rightarrow> string \<Rightarrow> string list" where
  "split_on c [] = [[]]"
| "split_on c (x # xs) =
     (if x = c then [] # split_on c xs
      else (case split_on c xs of t # ts \<Rightarrow> (x # t) # ts | [] \<Rightarrow> [[x]]))"

definition cipher_tokens :: "string \<Rightarrow> string list" where
  "cipher_tokens s = filter (\<lambda>t. t \<noteq> []) (split_on CHR '':'' s)"

definition create_tls_server_context :: "env \<Rightarrow> pyval \<Rightarrow> string \<Rightarrow> tls_server_context io" where
  "create_tls_server_context env cfg cbdir =
     andThen (lift (as_dict cfg)) (\<lambda>config.
     \<comment> \<open>server private key and certificate\<close>
     andThen (lift (py_getitem config ''key'')) (\<lambda>key_name.
     andThen (lift (path_join cbdir key_name)) (\<lambda>key_path.
     andThen (log_info ''Loading server TLS key from {key_filepath}'') (\<lambda>_.
     andThen (open_read (abspath env key_path)) (\<lambda>key_pem.
     andThen (lift (py_getitem config ''certificate'')) (\<lambda>cert_name.
     andThen (lift (path_join cbdir cert_name)) (\<lambda>cert_path.
     andThen (log_info ''Loading server TLS certificate from {cert_filepath}'') (\<lambda>_.
     andThen (open_read (abspath env cert_path)) (\<lambda>cert_pem.
     andThen (lift (KeyPair_load env key_pem)) (\<lambda>key.
     andThen (lift (Certificate_loadPEM env cert_pem)) (\<lambda>cert.
     \<comment> \<open>certificates that complete the verification chain\<close>
     andThen
       (case map_of config ''chain_certificates'' of
          None \<Rightarrow> ok None
        | Some v \<Rightarrow>
            andThen (lift (py_iter v)) (\<lambda>names.
            andThen (load_server_certs env cbdir
                       ''Loading server TLS chain certificate from {extra_cert_filepath}''
                       names []) (\<lambda>cs. ok (Some cs)))) (\<lambda>extra_certs.
     \<comment> \<open>certificate authorities to verify the peer's certificate with\<close>
     andThen
       (case map_of config ''ca_certificates'' of
          None \<Rightarrow> ok None
        | Some v \<Rightarrow>
            andThen (lift (py_iter v)) (\<lambda>names.
            andThen (load_server_certs env cbdir
                       ''Loading server TLS CA certificate from {ca_cert_filepath}''
                       names []) (\<lambda>cs. ok (Some cs)))) (\<lambda>ca_certs.
     \<comment> \<open>ciphers we accept\<close>
     andThen
       (case map_of config ''ciphers'' of
          Some v \<Rightarrow>
            andThen (log_info ''Using explicit TLS ciphers from config'') (\<lambda>_.
            case v of
              PStr s \<Rightarrow> lift (fromOpenSSLCipherString env s)
            | _ \<Rightarrow> raise TypeError)
        | None \<Rightarrow>
            andThen (log_info ''Using secure default TLS ciphers'') (\<lambda>_.
            lift (fromOpenSSLCipherString env default_ciphers))) (\<lambda>crossbar_ciphers.
     \<comment> \<open>DH modes require a parameter file\<close>
     andThen
       (case map_of config ''dhparam'' of
          Some v \<Rightarrow>
            andThen (lift (path_join cbdir v)) (\<lambda>dhpath.
            andThen (lift (DiffieHellmanParameters_fromFile env (FilePath env (abspath env dhpath))))
              (\<lambda>dh. ok (Some dh)))
        | None \<Rightarrow>
            andThen
              (log_warn ''No OpenSSL DH parameter file set - DH cipher modes will be deactive!'')
              (\<lambda>_. ok None)) (\<lambda>dh_params.
     lift (CertificateOptions
       \<lparr> privateKey = key,
          certificate = cert,
          extraCertChain = extra_certs,
          verify = (ca_certs \<noteq> None),
          caCerts = ca_certs,
          dhParameters = dh_params,
          acceptableCiphers = crossbar_ciphers,
          raiseMinimumTo = TLSv1_1,
          enableSingleUseKeys = True,
          enableSessions = False,
          enableSessionTickets = False,
          fixBrokenPeers = False \<rparr>))))))))))))))))"

section \<open>The TLS client context\<close>

text \<open>
  The list comprehension of \<^verbatim>\<open>_create_tls_client_context\<close> resolves every path
  before the first file is opened.
\<close>

fun resolve_all :: "env \<Rightarrow> string \<Rightarrow> pyval list \<Rightarrow> error + string list" where
  "resolve_all env cbdir [] = Inr []"
| "resolve_all env cbdir (x # xs) =
     (case path_join cbdir x of
        Inl e \<Rightarrow> Inl e
      | Inr p \<Rightarrow>
          (case resolve_all env cbdir xs of
             Inl e \<Rightarrow> Inl e
           | Inr ps \<Rightarrow> Inr (abspath env p # ps)))"

fun load_client_cas :: "env \<Rightarrow> string list \<Rightarrow> x509 list \<Rightarrow> x509 list io" where
  "load_client_cas env [] acc = ok acc"
| "load_client_cas env (cert_fname # rest) acc =
     andThen (open_read cert_fname) (\<lambda>pem.
     andThen (lift (load_certificate env pem)) (\<lambda>cert.
     andThen (log_info ''TLS client trust root CA certificate loaded from {fname}'') (\<lambda>_.
     load_client_cas env rest (acc @ [cert]))))"

text \<open>Lines 206 to 218: the explicit trust root, or the platform's.\<close>

definition client_trust_root :: "env \<Rightarrow> config \<Rightarrow> string \<Rightarrow> x509 list option io" where
  "client_trust_root env config cbdir =
     (case map_of config ''ca_certificates'' of
        Some v \<Rightarrow>
          andThen (lift (py_iter v)) (\<lambda>names.
          andThen (log_info ''TLS client using explicit trust ({cnt_certs} certificates)'') (\<lambda>_.
          andThen (lift (resolve_all env cbdir names)) (\<lambda>fnames.
          andThen (load_client_cas env fnames []) (\<lambda>cs. ok (Some cs)))))
      | None \<Rightarrow>
          andThen (log_info ''TLS client using platform trust'') (\<lambda>_. ok None))"

text \<open>Lines 220 to 242: the client key and certificate to use.\<close>

definition client_certificate :: "env \<Rightarrow> config \<Rightarrow> string \<Rightarrow> private_certificate option io" where
  "client_certificate env config cbdir =
     (if py_in ''key'' config then
        if \<not> py_in ''certificate'' config then raise ClientKeyWithoutCertificate
        else
          andThen (lift (py_getitem config ''key'')) (\<lambda>key_name.
          andThen (lift (path_join cbdir key_name)) (\<lambda>key_path.
          andThen (open_read (abspath env key_path)) (\<lambda>key_pem.
          andThen (lift (KeyPair_load env key_pem)) (\<lambda>key.
          andThen (log_info ''Loaded client TLS key from {key_fname}'') (\<lambda>_.
          andThen (lift (py_getitem config ''certificate'')) (\<lambda>cert_name.
          andThen (lift (path_join cbdir cert_name)) (\<lambda>cert_path.
          andThen (open_read (abspath env cert_path)) (\<lambda>cert_pem.
          andThen (lift (Certificate_loadPEM env cert_pem)) (\<lambda>cert.
          andThen (log_info ''Loaded client TLS certificate from {cert_fname}'') (\<lambda>_.
          andThen (lift (fromCertificateAndKeyPair env cert key)) (\<lambda>pc.
          ok (Some pc))))))))))))
      else if py_in ''certificate'' config then
        andThen (log_warn ''TLS client certificate present, but key is missing'') (\<lambda>_. ok None)
      else ok None)"

definition create_tls_client_context :: "env \<Rightarrow> pyval \<Rightarrow> string \<Rightarrow> tls_client_context io" where
  "create_tls_client_context env cfg cbdir =
     andThen (lift (as_dict cfg)) (\<lambda>config.
     \<comment> \<open>server hostname: the expected name of the remote host\<close>
     andThen (lift (py_getitem config ''hostname'')) (\<lambda>host_name.
     andThen (client_trust_root env config cbdir) (\<lambda>ca_certs.
     andThen (client_certificate env config cbdir) (\<lambda>client_cert.
     \<comment> \<open>create TLS client context\<close>
     lift (optionsForClientTLS env host_name ca_certs client_cert)))))"

section \<open>Endpoints from configuration\<close>

definition ensure_absolute :: "env \<Rightarrow> pyval \<Rightarrow> string \<Rightarrow> error + string" where
  "ensure_absolute env fname cbdir =
     (case fname of
        PStr f \<Rightarrow>
          if isabs f then Inr f
          else (case path_join cbdir fname of Inl e \<Rightarrow> Inl e | Inr p \<Rightarrow> Inr (abspath env p))
      | _ \<Rightarrow> Inl TypeError)"

definition py_endswith :: "string \<Rightarrow> string \<Rightarrow> bool" where
  "py_endswith s suf = (length suf \<le> length s \<and> drop (length s - length suf) s = suf)"

text \<open>
  The four public functions take the caller's dict and may write to it. Each returns, with
  its result and the world, the dict as the caller finds it after the call; a function body
  that holds no assignment to \<^verbatim>\<open>config\<close> returns it as it came.
\<close>

type_synonym 'a call = "world \<Rightarrow> (error + 'a) \<times> config \<times> world"

definition with_config :: "config \<Rightarrow> 'a io \<Rightarrow> 'a call" where
  "with_config config m w = (case m w of (r, w') \<Rightarrow> (r, config, w'))"

definition io_of :: "'a call \<Rightarrow> 'a io" where
  "io_of c w = (case c w of (r, config', w') \<Rightarrow> (r, w'))"

definition create_connecting_endpoint_from_config ::
    "env \<Rightarrow> config \<Rightarrow> string \<Rightarrow> client_endpoint call" where
  "create_connecting_endpoint_from_config env config cbdir =
     with_config config (
     andThen (lift (py_getitem config ''type'')) (\<lambda>type.
     if type = PStr ''tcp'' then
       \<comment> \<open>a TCP endpoint\<close>
       andThen (lift (py_int env (py_get config ''version'' (PInt 4)))) (\<lambda>version.
       andThen (lift (py_getitem config ''host'')) (\<lambda>host_val.
       andThen (lift (py_getitem config ''port'')) (\<lambda>port_val.
       andThen (lift (py_int env port_val)) (\<lambda>port.
       andThen (lift (py_int env (py_get config ''timeout'' (PInt 10)))) (\<lambda>timeout.
       let host = py_str env host_val in
       case map_of config ''tls'' of
         Some tls \<Rightarrow>
           if has_tls env then
             andThen (create_tls_client_context env tls cbdir) (\<lambda>context.
             if version = 4 then ok (SSL4ClientEndpoint host (PInt port) context timeout)
             else if version = 6 then raise TLSOnIPv6NotImplemented
             else raise (InvalidTCPVersion version))
           else raise (TLSNotAvailable (lacks_tls_msg env))
       | None \<Rightarrow>
           if version = 4 then ok (TCP4ClientEndpoint host (PInt port) timeout)
           else if version = 6 then ok (TCP6ClientEndpoint host (PInt port) timeout)
           else raise (InvalidTCPVersion version))))))
     else if type = PStr ''unix'' then
       \<comment> \<open>a Unix Domain Socket endpoint\<close>
       andThen (lift (py_getitem config ''path'')) (\<lambda>path_val.
       andThen (lift (path_join cbdir path_val)) (\<lambda>path.
       andThen (lift (py_int env (py_get config ''timeout'' (PInt 10)))) (\<lambda>timeout.
       ok (UNIXClientEndpoint (abspath env path) timeout))))
     else if type = PStr ''twisted'' then
       andThen (lift (py_getitem config ''client_string'')) (\<lambda>client_string.
       andThen (lift (clientFromString env client_string)) (\<lambda>ep.
       ok (ClientFromString ep)))
     else if type = PStr ''tor'' then
       andThen (lift (py_getitem config ''host'')) (\<lambda>host.
       andThen (lift (py_getitem config ''port'')) (\<lambda>port.
       andThen (lift (py_getitem config ''tor_socks_port'')) (\<lambda>socks_port.
       let tls = py_get config ''tls'' (PBool False) in
       andThen
         (if py_truthy tls then ok ()
          else
            (case host of
               PStr h \<Rightarrow>
                 if py_endswith h ''.onion'' then ok ()
                 else log_warn
                   ''Non-TLS connection traversing Tor network; end-to-end encryption advised''
             | _ \<Rightarrow> raise AttributeError)) (\<lambda>_.
       ok (TorClientEndpoint host port (TCP4ClientEndpoint ''127.0.0.1'' socks_port 30) tls)))))
     else raise (InvalidEndpointType type)))"

text \<open>
  The \<^verbatim>\<open>try\<close> of the onion branch: the key file is read and stripped, and any
  \<^verbatim>\<open>IOError\<close> or \<^verbatim>\<open>OSError\<close> leaves the key \<^verbatim>\<open>None\<close>.
\<close>

definition read_onion_key :: "string \<Rightarrow> string option io" where
  "read_onion_key fname w =
     (case open_read fname w of
        (Inr content, w') \<Rightarrow>
          andThen (log_info ''Onion private key from {private_key_fname}'')
            (\<lambda>_. ok (Some (py_strip content))) w'
      | (Inl e, w') \<Rightarrow> (Inr None, w'))"

definition create_listening_endpoint_from_config ::
    "env \<Rightarrow> config \<Rightarrow> string \<Rightarrow> server_endpoint call" where
  "create_listening_endpoint_from_config env config cbdir =
     with_config config (
     andThen (lift (py_getitem config ''type'')) (\<lambda>type.
     if type = PStr ''tcp'' then
       \<comment> \<open>a TCP endpoint\<close>
       andThen (lift (py_int env (py_get config ''version'' (PInt 4)))) (\<lambda>version.
       andThen (lift (py_getitem config ''port'')) (\<lambda>port_val.
       andThen
         (case port_val of
            PStr s \<Rightarrow>
              \<comment> \<open>read port from environment variable\<close>
              (case environ env (drop 1 s) of
                 None \<Rightarrow>
                   andThen (log_warn ''Could not read listening port from env var: {e}'')
                     (\<lambda>_. raise (KeyError (drop 1 s)))
               | Some x \<Rightarrow>
                   (case py_int env (PStr x) of
                      Inl e \<Rightarrow>
                        andThen (log_warn ''Could not read listening port from env var: {e}'')
                          (\<lambda>_. raise e)
                    | Inr n \<Rightarrow> ok (PInt n)))
          | _ \<Rightarrow> ok port_val) (\<lambda>port.
       andThen (lift (py_strip_val (py_get config ''interface'' (PStr [])))) (\<lambda>interface.
       andThen (lift (py_int env (py_get config ''backlog'' (PInt 50)))) (\<lambda>backlog.
       case map_of config ''tls'' of
         Some tls \<Rightarrow>
           if has_tls env then
             andThen (create_tls_server_context env tls cbdir) (\<lambda>context.
             if version = 4 then ok (SSL4ServerEndpoint port context backlog interface)
             else if version = 6 then raise TLSOnIPv6NotImplemented
             else raise (InvalidTCPVersion version))
           else raise (TLSNotAvailable (lacks_tls_msg env))
       | None \<Rightarrow>
           if version = 4 then ok (TCP4ServerEndpoint port backlog interface)
           else if version = 6 then ok (TCP6ServerEndpoint port backlog interface)
           else raise (InvalidTCPVersion version))))))
     else if type = PStr ''unix'' then
       \<comment> \<open>a Unix Domain Socket endpoint\<close>
       andThen (lift (py_int env (py_get config ''backlog'' (PInt 50)))) (\<lambda>backlog.
       andThen (lift (py_getitem config ''path'')) (\<lambda>path_val.
       andThen (lift (case path_val of PStr p \<Rightarrow> Inr (PStr (expandvars env p))
                                    | _ \<Rightarrow> Inl TypeError)) (\<lambda>expanded.
       andThen (lift (path_join cbdir expanded)) (\<lambda>joined.
       let path = FilePath env joined in
       andThen
         (\<lambda>w. if exists path w
              then andThen
                     (log_info ''{path} exists, attempting to remove before using as a UNIX socket'')
                     (\<lambda>_. remove path) w
              else ok () w) (\<lambda>_.
       ok (UNIXServerEndpoint path backlog))))))
     else if type = PStr ''twisted'' then
       \<comment> \<open>twisted endpoint-string\<close>
       andThen (lift (py_getitem config ''server_string'')) (\<lambda>server_string.
       andThen (lift (serverFromString env server_string)) (\<lambda>ep.
       ok (ServerFromString ep)))
     else if type = PStr ''onion'' then
       \<comment> \<open>tor endpoint\<close>
       andThen (lift (py_getitem config ''port'')) (\<lambda>port.
       andThen (lift (py_getitem config ''private_key_file'')) (\<lambda>key_file.
       andThen (lift (ensure_absolute env key_file cbdir)) (\<lambda>fname.
       andThen (lift (py_getitem config ''tor_control_endpoint'')) (\<lambda>control.
       andThen (lift (as_dict control)) (\<lambda>control_config.
       andThen (io_of (create_connecting_endpoint_from_config env control_config cbdir)) (\<lambda>control_ep.
       let version = py_get config ''version'' (PInt 3) in
       andThen (read_onion_key fname) (\<lambda>key.
       ok (EphemeralOnion
             \<lparr> onion_port = port,
               private_key_fname = fname,
               tor_control_ep = control_ep,
               onion_version = version,
               private_key = key \<rparr>))))))))
     else raise (InvalidEndpointType type)))"

section \<open>Listening and connecting\<close>

text \<open>
  A coroutine under \<^verbatim>\<open>inlineCallbacks\<close> never raises to its caller: an exception
  inside it fails the Deferred it returned.
\<close>

definition inlineCallbacks :: "'a io \<Rightarrow> 'a deferred io" where
  "inlineCallbacks m w =
     (case m w of (Inl e, w') \<Rightarrow> (Inr (Failed e), w') | (Inr x, w') \<Rightarrow> (Inr (Fired x), w'))"

text \<open>\<^verbatim>\<open>_EphemeralOnion.listen\<close>, each \<^verbatim>\<open>yield\<close> a step that may fail.\<close>

definition ephemeral_onion_listen :: "env \<Rightarrow> ephemeral_onion \<Rightarrow> listening_port deferred io" where
  "ephemeral_onion_listen env onion =
     inlineCallbacks (
     \<comment> \<open>we don't care which local TCP port we listen on, but we do need to know it\<close>
     let local_ep = TCP4ServerEndpoint (PInt 0) 50 ''127.0.0.1'' in
     andThen (emit (EndpointListen local_ep)) (\<lambda>_.
     andThen (lift (endpoint_listen env local_ep)) (\<lambda>target_port.
     andThen (emit (TorControlConnect (tor_control_ep onion))) (\<lambda>_.
     andThen (lift (txtorcon_connect env (tor_control_ep onion))) (\<lambda>tor.
     andThen (log_info ''Creating onion service (descriptor upload can take 30s or more)'') (\<lambda>_.
     let ports = [(onion_port onion, target_port)] in
     andThen (emit (TorCreateOnionService ports (private_key onion) (onion_version onion))) (\<lambda>_.
     andThen (lift (create_onion_service env tor ports (private_key onion) (onion_version onion)))
       (\<lambda>hs.
     \<comment> \<open>if it's new, store our private key\<close>
     andThen
       (\<lambda>w. if \<not> exists (private_key_fname onion) w
            then andThen (open_write env (private_key_fname onion) (hs_private_key hs))
                   (\<lambda>_. log_info ''Wrote private key to {fname}'') w
            else ok () w) (\<lambda>_.
     andThen (log_info ''Listening on Tor onion service {hs.hostname}  with ports: {ports}'') (\<lambda>_.
     ok (BoundPort target_port)))))))))))"

text \<open>\<^verbatim>\<open>endpoint.listen(factory)\<close> and \<^verbatim>\<open>endpoint.connect(factory)\<close>.\<close>

definition listen :: "env \<Rightarrow> server_endpoint \<Rightarrow> listening_port deferred io" where
  "listen env ep =
     (case ep of
        EphemeralOnion onion \<Rightarrow> ephemeral_onion_listen env onion
      | _ \<Rightarrow>
          inlineCallbacks (
          andThen (emit (EndpointListen ep)) (\<lambda>_.
          andThen (lift (endpoint_listen env ep)) (\<lambda>n. ok (BoundPort n)))))"

definition connect :: "env \<Rightarrow> client_endpoint \<Rightarrow> connection deferred io" where
  "connect env ep =
     inlineCallbacks (
     andThen (emit (EndpointConnect ep)) (\<lambda>_. lift (endpoint_connect env ep)))"

section \<open>Ports from configuration\<close>

text \<open>
  Modelled from the spec: \<^verbatim>\<open>first_free_tcp_port\<close> of \<^verbatim>\<open>crossbar._util\<close>, a module
  that is not among the sources at hand. It scans an inclusive range \<^verbatim>\<open>[low, high]\<close>
  for the first free port on the target interface and fails with NetworkError when every
  port of the range is bound.
\<close>

definition first_free_tcp_port :: "env \<Rightarrow> pyval \<Rightarrow> pyval \<Rightarrow> error + int" where
  "first_free_tcp_port env host portrange =
     (case portrange of
        PList [PInt low, PInt high] \<Rightarrow>
          (case find (port_free env host) [low..high] of
             Some p \<Rightarrow> Inr p
           | None \<Rightarrow> Inl NetworkError)
      | _ \<Rightarrow> Inl TypeError)"

text \<open>
  Modelled from the spec: \<^verbatim>\<open>get_free_tcp_port\<close> of \<^verbatim>\<open>crossbar._util\<close>, the free
  port the operating system assigns on the host.
\<close>

definition get_free_tcp_port :: "env \<Rightarrow> pyval \<Rightarrow> error + int" where
  "get_free_tcp_port env host = os_free_port env host"

text \<open>Lines 432 to 438: the port is settled, and written into the caller's dict.\<close>

definition resolve_port :: "env \<Rightarrow> config \<Rightarrow> error + config" where
  "resolve_port env config =
     (case map_of config ''portrange'' of
        Some portrange \<Rightarrow>
          \<comment> \<open>first free port in given range\<close>
          (case first_free_tcp_port env (py_get config ''interface'' (PStr [])) portrange of
             Inl e \<Rightarrow> Inl e
           | Inr p \<Rightarrow> Inr (py_setitem config ''port'' (PInt p)))
      | None \<Rightarrow>
          if \<not> py_in ''port'' config \<or> map_of config ''port'' = Some PNone then
            \<comment> \<open>random free port\<close>
            (case get_free_tcp_port env (py_get config ''interface'' (PStr [])) of
               Inl e \<Rightarrow> Inl e
             | Inr p \<Rightarrow> Inr (py_setitem config ''port'' (PInt p)))
          else Inr config)"

text \<open>Lines 440 to 508, on the dict with its port settled.\<close>

definition listen_resolved :: "env \<Rightarrow> config \<Rightarrow> string \<Rightarrow> listening_port deferred io" where
  "listen_resolved env config cbdir =
     (let shared = py_get config ''shared'' (PBool False);
          user_timeout = py_get config ''user_timeout'' PNone
      in
      andThen (lift (py_getitem config ''type'')) (\<lambda>type.
      if type = PStr ''tcp'' \<and> (py_truthy shared \<or> user_timeout \<noteq> PNone) then
        andThen (lift (py_int env (py_get config ''version'' (PInt 4)))) (\<lambda>version.
        andThen (lift (py_strip_val (py_get config ''interface'' (PStr [])))) (\<lambda>interface.
        andThen (lift (py_getitem config ''port'')) (\<lambda>port_val.
        andThen (lift (py_int env port_val)) (\<lambda>port.
        andThen (lift (py_int env (py_get config ''backlog'' (PInt 50)))) (\<lambda>backlog.
        \<comment> \<open>create a listening port\<close>
        andThen
          (case map_of config ''tls'' of
             Some tls \<Rightarrow>
               if has_tls env then
                 andThen (create_tls_server_context env tls cbdir) (\<lambda>context.
                 if version = 4
                 then ok (CustomTCPTLSPort port context backlog interface shared user_timeout)
                 else if version = 6 then raise TLSOnIPv6NotImplemented
                 else raise (InvalidTCPVersion version))
               else raise (TLSNotAvailable (lacks_tls_msg env))
           | None \<Rightarrow> ok (CustomTCPPort port backlog interface shared user_timeout))
          (\<lambda>listening_port.
        \<comment> \<open>\<^verbatim>\<open>try: listening_port.startListening()\<close>\<close>
        andThen (emit (PortStartListening listening_port)) (\<lambda>_.
        case start_listening env listening_port of
          None \<Rightarrow> ok (Fired (Started listening_port))
        | Some e \<Rightarrow> ok (Failed e))))))))
      else
        \<comment> \<open>\<^verbatim>\<open>try: ... except Exception: return defer.fail()\<close>\<close>
        (\<lambda>w. case io_of (create_listening_endpoint_from_config env config cbdir) w of
               (Inl e, w') \<Rightarrow> (Inr (Failed e), w')
             | (Inr endpoint, w') \<Rightarrow> listen env endpoint w')))"

definition create_listening_port_from_config ::
    "env \<Rightarrow> config \<Rightarrow> string \<Rightarrow> listening_port deferred call" where
  "create_listening_port_from_config env config cbdir w =
     (case resolve_port env config of
        Inl e \<Rightarrow> (Inl e, config, w)
      | Inr config' \<Rightarrow> with_config config' (listen_resolved env config' cbdir) w)"

definition create_connecting_port_from_config ::
    "env \<Rightarrow> config \<Rightarrow> string \<Rightarrow> connection deferred call" where
  "create_connecting_port_from_config env config cbdir =
     with_config config (
     andThen (io_of (create_connecting_endpoint_from_config env config cbdir)) (\<lambda>endpoint.
     connect env endpoint))"

section \<open>An example node\<close>

text \<open>
  A node directory \<^verbatim>\<open>/node\<close> with a server key, a server certificate and one CA
  certificate, libraries that load whatever they are given, and ports 9000 and 9001
  already bound. Its cipher-string parser does what an OpenSSL with TLS 1.3 does: of the
  names in the string it keeps the ones it knows, and when it keeps any, the TLS 1.3
  suites come with them at the head of the list, whether the string names them or not.
\<close>

definition tls13_suites :: "string list" where
  "tls13_suites =
     [''TLS_AES_256_GCM_SHA384'', ''TLS_CHACHA20_POLY1305_SHA256'', ''TLS_AES_128_GCM_SHA256'']"

definition known_suites :: "string list" where
  "known_suites =
     [''ECDHE-ECDSA-AES128-GCM-SHA256'', ''ECDHE-RSA-AES128-GCM-SHA256'',
      ''ECDHE-ECDSA-AES256-GCM-SHA384'', ''ECDHE-RSA-AES256-GCM-SHA384'',
      ''DHE-RSA-AES128-GCM-SHA256'', ''DHE-RSA-AES256-GCM-SHA384'',
      ''ECDHE-RSA-AES128-SHA256'', ''DHE-RSA-AES128-SHA256'',
      ''ECDHE-RSA-AES128-SHA'', ''DHE-RSA-AES128-SHA'']"

definition openssl_ciphers :: "string \<Rightarrow> error + string list" where
  "openssl_ciphers s =
     (let named = filter (\<lambda>t. t \<in> set known_suites) (cipher_tokens s)
      in if named = [] then Inr [] else Inr (tls13_suites @ named))"

definition example_env :: env where
  "example_env =
     \<lparr> has_tls = True,
       lacks_tls_msg = [],
       environ = (\<lambda>name. if name = ''CROSSBAR_PORT'' then Some ''8080'' else None),
       abspath = (\<lambda>p. p),
       expandvars = (\<lambda>p. p),
       int_of_str = (\<lambda>s. if s = ''8080'' then Some 8080 else None),
       str_of_val = (\<lambda>v. []),
       KeyPair_load = (\<lambda>pem. Inr (PKey pem)),
       Certificate_loadPEM = (\<lambda>pem. Inr (X509 pem)),
       load_certificate = (\<lambda>pem. Inr (X509 pem)),
       fromCertificateAndKeyPair = (\<lambda>c k. Inr (PrivateCertificate c k)),
       DiffieHellmanParameters_fromFile = (\<lambda>p. Inr (DHParams p)),
       fromOpenSSLCipherString = openssl_ciphers,
       client_options_rejected = (\<lambda>name trust cert.
         if name = [] then Some (LibraryError ''IDNAError'') else None),
       serverFromString = (\<lambda>v. case v of PStr s \<Rightarrow> Inr s | _ \<Rightarrow> Inl ValueError),
       clientFromString = (\<lambda>v. case v of PStr s \<Rightarrow> Inr s | _ \<Rightarrow> Inl ValueError),
       can_create = (\<lambda>p. True),
       port_free = (\<lambda>host p. p \<noteq> 9000 \<and> p \<noteq> 9001),
       os_free_port = (\<lambda>host. Inr 49152),
       endpoint_listen = (\<lambda>ep. Inr 40001),
       endpoint_connect = (\<lambda>ep. Inr (Connection 0)),
       start_listening = (\<lambda>p. None),
       txtorcon_connect = (\<lambda>ep. Inr (Tor 0)),
       create_onion_service = (\<lambda>t ports key version.
         Inr \<lparr> hs_private_key = (case key of None \<Rightarrow> ''ED25519-V3:fresh'' | Some k \<Rightarrow> k),
               hs_hostname = ''example.onion'',
               hs_ports = [] \<rparr>) \<rparr>"

definition example_world :: world where
  "example_world =
     \<lparr> fs = (\<lambda>p. if p = ''/node/server.key'' then Some (Regular ''KEY'')
                 else if p = ''/node/server.crt'' then Some (Regular ''CERT'')
                 else if p = ''/node/ca.crt'' then Some (Regular ''CA'')
                 else None),
       events = [] \<rparr>"

definition example_tls :: config where
  "example_tls = [(''key'', PStr ''server.key''), (''certificate'', PStr ''server.crt'')]"

definition example_context :: tls_server_context where
  "example_context =
     \<lparr> privateKey = PKey ''KEY'', certificate = X509 ''CERT'', extraCertChain = None,
       verify = False, caCerts = None, dhParameters = None,
       acceptableCiphers =
         [''TLS_AES_256_GCM_SHA384'', ''TLS_CHACHA20_POLY1305_SHA256'',
          ''TLS_AES_128_GCM_SHA256'',
          ''ECDHE-RSA-AES128-GCM-SHA256'', ''DHE-RSA-AES128-GCM-SHA256'',
          ''ECDHE-RSA-AES128-SHA256'', ''DHE-RSA-AES128-SHA256'',
          ''ECDHE-RSA-AES128-SHA'', ''DHE-RSA-AES128-SHA''],
       raiseMinimumTo = TLSv1_1, enableSingleUseKeys = True, enableSessions = False,
       enableSessionTickets = False, fixBrokenPeers = False \<rparr>"



section \<open>Properties\<close>

subsection \<open>Reasoning about sequenced steps\<close>

lemma andThen_InrE:
  assumes "andThen m f w = (Inr y, w')"
  obtains x w1 where "m w = (Inr x, w1)" and "f x w1 = (Inr y, w')"
  using assms by (auto simp: andThen_def split: prod.splits sum.splits)

lemma lift_Inr_iff: "lift r w = (Inr x, w') \<longleftrightarrow> r = Inr x \<and> w' = w"
  by (auto simp: lift_def)

lemma ok_Inr_iff: "ok x w = (Inr y, w') \<longleftrightarrow> y = x \<and> w' = w"
  by (auto simp: ok_def)

lemma raise_Inr_iff: "raise e w = (Inr y, w') \<longleftrightarrow> False"
  by (auto simp: raise_def)

lemma as_dict_Inr_iff: "as_dict v = Inr d \<longleftrightarrow> v = PDict d"
  by (cases v) (auto simp: as_dict_def)

lemmas run_defs = andThen_def lift_def ok_def raise_def emit_def log_info_def log_warn_def
  open_read_def as_dict_def py_getitem_def py_in_def py_get_def path_join_def py_iter_def

subsection \<open>The TLS server context\<close>

lemma load_server_certs_length:
  "load_server_certs env cbdir msg names acc w = (Inr cs, w') \<Longrightarrow>
     length cs = length acc + length names"
proof (induction names arbitrary: acc w)
  case Nil
  then show ?case by (simp add: ok_Inr_iff)
next
  case (Cons fname rest)
  from Cons.prems obtain c w1 where
    "load_server_certs env cbdir msg rest (acc @ [c]) w1 = (Inr cs, w')"
    by (auto elim!: andThen_InrE)
  from Cons.IH[OF this] show ?case by simp
qed

lemma optional_certs_loaded:
  assumes "(case map_of config k of
              None \<Rightarrow> ok None
            | Some v \<Rightarrow>
                andThen (lift (py_iter v)) (\<lambda>names.
                andThen (load_server_certs env cbdir msg names []) (\<lambda>cs. ok (Some cs)))) w
           = (Inr r, w')"
  shows "case r of
           None \<Rightarrow> map_of config k = None
         | Some cs \<Rightarrow> \<exists>v items. map_of config k = Some v \<and> py_iter v = Inr items \<and>
                                  length cs = length items"
proof (cases "map_of config k")
  case None
  with assms show ?thesis by (simp add: ok_Inr_iff)
next
  case (Some v)
  with assms obtain names w1 cs where "py_iter v = Inr names"
    and "load_server_certs env cbdir msg names [] w1 = (Inr cs, w')" and "r = Some cs"
    by (auto simp: ok_Inr_iff lift_Inr_iff elim!: andThen_InrE)
  with Some load_server_certs_length[of env cbdir msg names "[]" w1 cs w'] show ?thesis
    by simp
qed

lemma chosen_ciphers:
  assumes "(case map_of config ''ciphers'' of
              Some v \<Rightarrow>
                andThen (log_info m1) (\<lambda>_.
                case v of
                  PStr s \<Rightarrow> lift (fromOpenSSLCipherString env s)
                | _ \<Rightarrow> raise TypeError)
            | None \<Rightarrow>
                andThen (log_info m2) (\<lambda>_.
                lift (fromOpenSSLCipherString env default_ciphers))) w
           = (Inr cs, w')"
  shows "case map_of config ''ciphers'' of
           Some v \<Rightarrow> \<exists>s. v = PStr s \<and> fromOpenSSLCipherString env s = Inr cs
         | None \<Rightarrow> fromOpenSSLCipherString env default_ciphers = Inr cs"
proof (cases "map_of config ''ciphers''")
  case None
  with assms show ?thesis by (auto simp: lift_Inr_iff elim!: andThen_InrE)
next
  case (Some v)
  with assms show ?thesis
    by (cases v) (auto simp: lift_Inr_iff raise_Inr_iff elim!: andThen_InrE)
qed

lemma CertificateOptions_Inr_iff:
  "CertificateOptions kwargs = Inr ctx \<longleftrightarrow>
     ctx = kwargs \<and> \<not> (verify kwargs \<and> (caCerts kwargs = None \<or> caCerts kwargs = Some [])) \<and>
     acceptableCiphers kwargs \<noteq> []"
  by (auto simp: CertificateOptions_def)

lemma server_context_shape:
  assumes "create_tls_server_context env cfg cbdir w = (Inr ctx, w')"
  shows "\<exists>config. cfg = PDict config \<and>
           (verify ctx \<longleftrightarrow>
              (\<exists>v items. map_of config ''ca_certificates'' = Some v \<and>
                          py_iter v = Inr items \<and> items \<noteq> [])) \<and>
           (verify ctx \<longleftrightarrow> (\<exists>cs. caCerts ctx = Some cs \<and> cs \<noteq> [])) \<and>
           raiseMinimumTo ctx = TLSv1_1 \<and> enableSingleUseKeys ctx \<and>
           \<not> enableSessions ctx \<and> \<not> enableSessionTickets ctx \<and> \<not> fixBrokenPeers ctx \<and>
           (case map_of config ''ciphers'' of
              Some v \<Rightarrow> \<exists>s. v = PStr s \<and> fromOpenSSLCipherString env s = Inr (acceptableCiphers ctx)
            | None \<Rightarrow> fromOpenSSLCipherString env default_ciphers = Inr (acceptableCiphers ctx))"
  using assms unfolding create_tls_server_context_def
proof (elim andThen_InrE, goal_cases)
  case (1 config w1 key_name w2 key_path w3 u4 w4 key_pem w5 cert_name w6 cert_path w7 u8 w8
        cert_pem w9 key w10 cert w11 extra w12 ca w13 cs w14 dh w15)
  from 1(1) have "cfg = PDict config" by (simp add: lift_Inr_iff as_dict_Inr_iff)
  moreover note ca = optional_certs_loaded[OF 1(13)]
  moreover note chosen_ciphers[OF 1(14)]
  moreover from 1(16) have ctx: "ctx = \<lparr> privateKey = key, certificate = cert,
          extraCertChain = extra,
          verify = (ca \<noteq> None), caCerts = ca, dhParameters = dh, acceptableCiphers = cs,
          raiseMinimumTo = TLSv1_1, enableSingleUseKeys = True, enableSessions = False,
          enableSessionTickets = False, fixBrokenPeers = False \<rparr>"
      and "ca = None \<or> (\<exists>certs. ca = Some certs \<and> certs \<noteq> [])"
    by (auto simp: lift_Inr_iff CertificateOptions_Inr_iff)
  ultimately show ?case
    by (cases ca) (auto split: option.splits)
qed

lemma server_context_built:
  assumes "fst (create_tls_server_context env cfg cbdir w) = Inr ctx"
  shows "\<exists>w'. create_tls_server_context env cfg cbdir w = (Inr ctx, w')"
  using assms by (cases "create_tls_server_context env cfg cbdir w") simp

lemma default_cipher_names:
  "cipher_tokens default_ciphers =
     [''ECDHE-RSA-AES128-GCM-SHA256'', ''DHE-RSA-AES128-GCM-SHA256'',
      ''ECDHE-RSA-AES128-SHA256'', ''DHE-RSA-AES128-SHA256'',
      ''ECDHE-RSA-AES128-SHA'', ''DHE-RSA-AES128-SHA'']"
  by (simp add: cipher_tokens_def default_ciphers_def)

lemma example_default_ciphers:
  "openssl_ciphers default_ciphers = Inr (acceptableCiphers example_context)"
  by (simp add: openssl_ciphers_def default_cipher_names known_suites_def tls13_suites_def
        example_context_def)

lemmas example_defs = example_env_def example_world_def example_tls_def example_context_def
  CertificateOptions_def

lemma example_server_default:
  "fst (create_tls_server_context example_env (PDict example_tls) ''/node'' example_world) =
     Inr example_context"
  using example_default_ciphers
  by (simp add: create_tls_server_context_def example_defs run_defs)

lemma example_server_ca:
  "fst (create_tls_server_context example_env
          (PDict (example_tls @ [(''ca_certificates'', PList [PStr ''ca.crt''])]))
          ''/node'' example_world) =
     Inr (example_context \<lparr> verify := True, caCerts := Some [X509 ''CA''] \<rparr>)"
  using example_default_ciphers
  by (simp add: create_tls_server_context_def example_defs run_defs)

lemma example_server_empty_ca:
  "fst (create_tls_server_context example_env
          (PDict (example_tls @ [(''ca_certificates'', PList [])]))
          ''/node'' example_world) = Inl ValueError"
  using example_default_ciphers
  by (simp add: create_tls_server_context_def example_defs run_defs)

text \<open>
  The acceptable ciphers of a returned context are what the cipher-string parser made of
  the string under \<^verbatim>\<open>ciphers\<close>, or of the default string when the key is absent; the
  default string names six suites.
\<close>

lemma server_context_cipher_source:
  assumes "fst (create_tls_server_context env (PDict config) cbdir w) = Inr ctx"
  shows "(\<forall>s. map_of config ''ciphers'' = Some (PStr s) \<longrightarrow>
            fromOpenSSLCipherString env s = Inr (acceptableCiphers ctx)) \<and>
         (map_of config ''ciphers'' = None \<longrightarrow>
            fromOpenSSLCipherString env default_ciphers = Inr (acceptableCiphers ctx))"
proof -
  from assms obtain w' where "create_tls_server_context env (PDict config) cbdir w = (Inr ctx, w')"
    using server_context_built by blast
  from server_context_shape[OF this]
  have "case map_of config ''ciphers'' of
          Some v \<Rightarrow> \<exists>s. v = PStr s \<and> fromOpenSSLCipherString env s = Inr (acceptableCiphers ctx)
        | None \<Rightarrow> fromOpenSSLCipherString env default_ciphers = Inr (acceptableCiphers ctx)"
    by simp
  then show ?thesis
    by (auto split: option.splits)
qed

text \<open>
  C1 says that without a \<^verbatim>\<open>ciphers\<close> key the acceptable ciphers of the built context
  are exactly the six suites of the default string, with no AES256 or SHA-384 variant. On
  the example node, whose cipher-string parser adds the TLS 1.3 suites as OpenSSL does,
  the server config without \<^verbatim>\<open>ciphers\<close> gives a context with nine acceptable
  ciphers, TLS_AES_256_GCM_SHA384 among them.
\<close>

theorem default_ciphers_not_only_six:
  "map_of example_tls ''ciphers'' = None \<and>
   fst (create_tls_server_context example_env (PDict example_tls) ''/node'' example_world) =
     Inr example_context \<and>
   acceptableCiphers example_context =
     [''TLS_AES_256_GCM_SHA384'', ''TLS_CHACHA20_POLY1305_SHA256'', ''TLS_AES_128_GCM_SHA256'',
      ''ECDHE-RSA-AES128-GCM-SHA256'', ''DHE-RSA-AES128-GCM-SHA256'',
      ''ECDHE-RSA-AES128-SHA256'', ''DHE-RSA-AES128-SHA256'',
      ''ECDHE-RSA-AES128-SHA'', ''DHE-RSA-AES128-SHA''] \<and>
   acceptableCiphers example_context \<noteq>
     [''ECDHE-RSA-AES128-GCM-SHA256'', ''DHE-RSA-AES128-GCM-SHA256'',
      ''ECDHE-RSA-AES128-SHA256'', ''DHE-RSA-AES128-SHA256'',
      ''ECDHE-RSA-AES128-SHA'', ''DHE-RSA-AES128-SHA'']"
  using example_server_default
  by (simp add: example_tls_def example_context_def)

text \<open>
  C2. Whenever the server-context builder returns a context, its verify flag is true
  exactly when the config has a \<^verbatim>\<open>ca_certificates\<close> entry that holds at least one
  item, and then the context carries at least one CA certificate; for a list under
  \<^verbatim>\<open>ca_certificates\<close> that is when the list is not empty, and without the key the flag
  is false.
\<close>

theorem server_verify_iff_ca_nonempty:
  assumes "fst (create_tls_server_context env (PDict config) cbdir w) = Inr ctx"
  shows "(verify ctx \<longleftrightarrow>
            (\<exists>v items. map_of config ''ca_certificates'' = Some v \<and>
                        py_iter v = Inr items \<and> items \<noteq> [])) \<and>
         (\<forall>xs. map_of config ''ca_certificates'' = Some (PList xs) \<longrightarrow>
            (verify ctx \<longleftrightarrow> xs \<noteq> [])) \<and>
         (map_of config ''ca_certificates'' = None \<longrightarrow> \<not> verify ctx) \<and>
         (verify ctx \<longleftrightarrow> (\<exists>cs. caCerts ctx = Some cs \<and> cs \<noteq> []))"
proof -
  from assms obtain w' where "create_tls_server_context env (PDict config) cbdir w = (Inr ctx, w')"
    using server_context_built by blast
  note shape = server_context_shape[OF this]
  from shape have main: "verify ctx \<longleftrightarrow>
            (\<exists>v items. map_of config ''ca_certificates'' = Some v \<and>
                        py_iter v = Inr items \<and> items \<noteq> [])"
    by blast
  from shape have certs: "verify ctx \<longleftrightarrow> (\<exists>cs. caCerts ctx = Some cs \<and> cs \<noteq> [])"
    by blast
  from main have "\<forall>xs. map_of config ''ca_certificates'' = Some (PList xs) \<longrightarrow>
            (verify ctx \<longleftrightarrow> xs \<noteq> [])"
    by (auto simp: py_iter_def)
  moreover from main have "map_of config ''ca_certificates'' = None \<longrightarrow> \<not> verify ctx"
    by simp
  ultimately show ?thesis
    using main certs by blast
qed

theorem server_verify_iff_ca_nonempty_witness:
  "fst (create_tls_server_context example_env
          (PDict (example_tls @ [(''ca_certificates'', PList [PStr ''ca.crt''])]))
          ''/node'' example_world) =
     Inr (example_context \<lparr> verify := True, caCerts := Some [X509 ''CA''] \<rparr>) \<and>
   map_of (example_tls @ [(''ca_certificates'', PList [PStr ''ca.crt''])]) ''ca_certificates''
     = Some (PList [PStr ''ca.crt'']) \<and>
   (verify (example_context \<lparr> verify := True, caCerts := Some [X509 ''CA''] \<rparr>) \<longleftrightarrow>
      [PStr ''ca.crt''] \<noteq> []) \<and>
   fst (create_tls_server_context example_env (PDict example_tls) ''/node'' example_world) =
     Inr example_context \<and>
   map_of example_tls ''ca_certificates'' = None \<and>
   \<not> verify example_context"
  using server_verify_iff_ca_nonempty[OF example_server_ca]
        server_verify_iff_ca_nonempty[OF example_server_default]
        example_server_ca example_server_default
  by (simp add: example_tls_def)

text \<open>
  C3. Whenever the server-context builder returns a context, the context raises the
  minimum protocol version to TLS 1.1, enables single-use keys, disables sessions and
  session tickets, and applies no fixes for broken peers.
\<close>

theorem server_context_hardening:
  assumes "fst (create_tls_server_context env cfg cbdir w) = Inr ctx"
  shows "raiseMinimumTo ctx = TLSv1_1 \<and> enableSingleUseKeys ctx \<and> \<not> enableSessions ctx \<and>
         \<not> enableSessionTickets ctx \<and> \<not> fixBrokenPeers ctx"
proof -
  from assms obtain w' where "create_tls_server_context env cfg cbdir w = (Inr ctx, w')"
    using server_context_built by blast
  from server_context_shape[OF this] show ?thesis
    by blast
qed

theorem server_context_hardening_witness:
  "fst (create_tls_server_context example_env (PDict example_tls) ''/node'' example_world) =
     Inr example_context \<and>
   raiseMinimumTo example_context = TLSv1_1 \<and> enableSingleUseKeys example_context \<and>
   \<not> enableSessions example_context \<and> \<not> enableSessionTickets example_context \<and>
   \<not> fixBrokenPeers example_context"
  using server_context_hardening[OF example_server_default] example_server_default
  by simp

subsection \<open>The TLS client context\<close>

lemma client_certificate_key_only:
  assumes "py_in ''key'' config" and "\<not> py_in ''certificate'' config"
  shows "client_certificate env config cbdir w = (Inl ClientKeyWithoutCertificate, w)"
  using assms by (simp add: client_certificate_def raise_def)

lemma client_certificate_cert_only:
  assumes "py_in ''certificate'' config" and "\<not> py_in ''key'' config"
  shows "client_certificate env config cbdir w =
           (Inr None, w\<lparr>events := events w @
              [Log Warn ''TLS client certificate present, but key is missing'']\<rparr>)"
  using assms by (simp add: client_certificate_def andThen_def log_warn_def emit_def ok_def)

lemma optionsForClientTLS_certificate:
  "optionsForClientTLS env host trust cert = Inr ctx \<Longrightarrow> clientCertificate ctx = cert"
  by (auto simp: optionsForClientTLS_def split: pyval.splits option.splits)

text \<open>
  C4. For every TLS client config: with \<^verbatim>\<open>key\<close> present and \<^verbatim>\<open>certificate\<close> absent
  the builder returns no context, and once the host name is read and the trust root is
  loaded it fails with the exception "TLS client key present, but certificate missing".
  With \<^verbatim>\<open>certificate\<close> present and \<^verbatim>\<open>key\<close> absent every context it returns has no
  client certificate, and once the host name is read as text, the trust root is loaded and
  the library accepts them, it succeeds, having logged one warning and nothing else after
  the trust root.
\<close>

theorem client_key_and_certificate:
  "(py_in ''key'' config \<and> \<not> py_in ''certificate'' config \<longrightarrow>
      (\<forall>ctx. fst (create_tls_client_context env (PDict config) cbdir w) \<noteq> Inr ctx) \<and>
      (\<forall>h ca w1.
         map_of config ''hostname'' = Some h \<and>
         client_trust_root env config cbdir w = (Inr ca, w1) \<longrightarrow>
         create_tls_client_context env (PDict config) cbdir w
           = (Inl ClientKeyWithoutCertificate, w1))) \<and>
   (py_in ''certificate'' config \<and> \<not> py_in ''key'' config \<longrightarrow>
      (\<forall>ctx. fst (create_tls_client_context env (PDict config) cbdir w) = Inr ctx \<longrightarrow>
         clientCertificate ctx = None) \<and>
      (\<forall>name ca w1.
         map_of config ''hostname'' = Some (PStr name) \<and>
         client_trust_root env config cbdir w = (Inr ca, w1) \<and>
         client_options_rejected env name ca None = None \<longrightarrow>
         create_tls_client_context env (PDict config) cbdir w
           = (Inr \<lparr> hostname = PStr name, trustRoot = ca, clientCertificate = None \<rparr>,
              w1 \<lparr> events := events w1 @
                [Log Warn ''TLS client certificate present, but key is missing''] \<rparr>)))"
proof (intro conjI impI allI)
  fix ctx
  assume "py_in ''key'' config \<and> \<not> py_in ''certificate'' config"
  then show "fst (create_tls_client_context env (PDict config) cbdir w) \<noteq> Inr ctx"
    by (auto simp: create_tls_client_context_def client_certificate_key_only andThen_def
          lift_def as_dict_def split: sum.splits prod.splits)
next
  fix h ca w1
  assume "py_in ''key'' config \<and> \<not> py_in ''certificate'' config"
    and "map_of config ''hostname'' = Some h \<and>
         client_trust_root env config cbdir w = (Inr ca, w1)"
  then show "create_tls_client_context env (PDict config) cbdir w
           = (Inl ClientKeyWithoutCertificate, w1)"
    by (simp add: create_tls_client_context_def client_certificate_key_only andThen_def
          lift_def as_dict_def py_getitem_def)
next
  fix ctx
  assume only: "py_in ''certificate'' config \<and> \<not> py_in ''key'' config"
    and "fst (create_tls_client_context env (PDict config) cbdir w) = Inr ctx"
  then obtain w' where "create_tls_client_context env (PDict config) cbdir w = (Inr ctx, w')"
    by (cases "create_tls_client_context env (PDict config) cbdir w") simp
  then show "clientCertificate ctx = None"
    unfolding create_tls_client_context_def
  proof (elim andThen_InrE, goal_cases)
    case (1 dict w1 h w2 ca w3 cert w4)
    from 1(1) have "dict = config"
      by (simp add: lift_Inr_iff as_dict_def)
    with 1(4) only have "cert = None"
      by (simp add: client_certificate_cert_only)
    moreover from 1(5) have "optionsForClientTLS env h ca cert = Inr ctx"
      by (simp add: lift_Inr_iff)
    ultimately show ?case
      by (simp add: optionsForClientTLS_certificate)
  qed
next
  fix name ca w1
  assume "py_in ''certificate'' config \<and> \<not> py_in ''key'' config"
    and "map_of config ''hostname'' = Some (PStr name) \<and>
         client_trust_root env config cbdir w = (Inr ca, w1) \<and>
         client_options_rejected env name ca None = None"
  then show "create_tls_client_context env (PDict config) cbdir w
           = (Inr \<lparr> hostname = PStr name, trustRoot = ca, clientCertificate = None \<rparr>,
              w1 \<lparr> events := events w1 @
                [Log Warn ''TLS client certificate present, but key is missing''] \<rparr>)"
    by (simp add: create_tls_client_context_def client_certificate_cert_only andThen_def
          lift_def as_dict_def py_getitem_def optionsForClientTLS_def)
qed

lemma example_trust_root:
  "client_trust_root example_env
     [(''hostname'', PStr ''example.com''), (''certificate'', PStr ''client.crt'')]
     ''/node'' example_world
   = (Inr None, example_world \<lparr> events := [Log Info ''TLS client using platform trust''] \<rparr>)"
  by (simp add: client_trust_root_def example_world_def run_defs)

lemma example_trust_root_key:
  "client_trust_root example_env
     [(''hostname'', PStr ''example.com''), (''key'', PStr ''server.key'')]
     ''/node'' example_world
   = (Inr None, example_world \<lparr> events := [Log Info ''TLS client using platform trust''] \<rparr>)"
  by (simp add: client_trust_root_def example_world_def run_defs)

theorem client_key_and_certificate_witness:
  "create_tls_client_context example_env
     (PDict [(''hostname'', PStr ''example.com''), (''certificate'', PStr ''client.crt'')])
     ''/node'' example_world
   = (Inr \<lparr> hostname = PStr ''example.com'', trustRoot = None, clientCertificate = None \<rparr>,
      example_world \<lparr> events :=
        [Log Info ''TLS client using platform trust'',
         Log Warn ''TLS client certificate present, but key is missing''] \<rparr>) \<and>
   create_tls_client_context example_env
     (PDict [(''hostname'', PStr ''example.com''), (''key'', PStr ''server.key'')])
     ''/node'' example_world
   = (Inl ClientKeyWithoutCertificate,
      example_world \<lparr> events := [Log Info ''TLS client using platform trust''] \<rparr>)"
proof -
  have accepted: "client_options_rejected example_env ''example.com'' None None = None"
    by (simp add: example_env_def)
  have "create_tls_client_context example_env
     (PDict [(''hostname'', PStr ''example.com''), (''certificate'', PStr ''client.crt'')])
     ''/node'' example_world
   = (Inr \<lparr> hostname = PStr ''example.com'', trustRoot = None, clientCertificate = None \<rparr>,
      (example_world \<lparr> events := [Log Info ''TLS client using platform trust''] \<rparr>)
        \<lparr> events := events (example_world
              \<lparr> events := [Log Info ''TLS client using platform trust''] \<rparr>) @
            [Log Warn ''TLS client certificate present, but key is missing''] \<rparr>)"
    by (rule client_key_and_certificate[THEN conjunct2, rule_format, THEN conjunct2, rule_format])
       (simp_all add: py_in_def example_trust_root accepted)
  moreover have "create_tls_client_context example_env
     (PDict [(''hostname'', PStr ''example.com''), (''key'', PStr ''server.key'')])
     ''/node'' example_world
   = (Inl ClientKeyWithoutCertificate,
      example_world \<lparr> events := [Log Info ''TLS client using platform trust''] \<rparr>)"
    by (rule client_key_and_certificate[THEN conjunct1, rule_format, THEN conjunct2, rule_format])
       (simp_all add: py_in_def example_trust_root_key)
  ultimately show ?thesis
    by (simp add: example_world_def)
qed

subsection \<open>Dispatch on the type\<close>

text \<open>
  C5 as stated fails: the type \<^verbatim>\<open>described\<close> is rejected as an invalid endpoint type,
  both for listening and for connecting.
\<close>

theorem described_type_counterexample:
  "create_listening_endpoint_from_config example_env
     [(''type'', PStr ''described''), (''server_string'', PStr ''tcp:8080'')]
     ''/node'' example_world
   = (Inl (InvalidEndpointType (PStr ''described'')),
      [(''type'', PStr ''described''), (''server_string'', PStr ''tcp:8080'')],
      example_world) \<and>
   create_connecting_endpoint_from_config example_env
     [(''type'', PStr ''described''), (''client_string'', PStr ''tcp:localhost:8080'')]
     ''/node'' example_world
   = (Inl (InvalidEndpointType (PStr ''described'')),
      [(''type'', PStr ''described''), (''client_string'', PStr ''tcp:localhost:8080'')],
      example_world)"
  by (simp add: create_listening_endpoint_from_config_def
        create_connecting_endpoint_from_config_def with_config_def run_defs)

text \<open>
  C5, amended. For a configuration whose type is \<^verbatim>\<open>twisted\<close>, listening resolution
  hands the value under \<^verbatim>\<open>server_string\<close> to \<^verbatim>\<open>serverFromString\<close> as it is and
  returns what the parser returns, and connecting resolution does the same with
  \<^verbatim>\<open>client_string\<close> and \<^verbatim>\<open>clientFromString\<close>; the world is left as it was.
\<close>

theorem twisted_type_passes_descriptor:
  assumes "map_of config ''type'' = Some (PStr ''twisted'')"
  shows "(\<forall>s. map_of config ''server_string'' = Some s \<longrightarrow>
            create_listening_endpoint_from_config env config cbdir w
              = (case serverFromString env s of
                   Inl e \<Rightarrow> Inl e
                 | Inr ep \<Rightarrow> Inr (ServerFromString ep), config, w)) \<and>
         (\<forall>s. map_of config ''client_string'' = Some s \<longrightarrow>
            create_connecting_endpoint_from_config env config cbdir w
              = (case clientFromString env s of
                   Inl e \<Rightarrow> Inl e
                 | Inr ep \<Rightarrow> Inr (ClientFromString ep), config, w))"
  using assms
  by (auto simp: create_listening_endpoint_from_config_def
        create_connecting_endpoint_from_config_def with_config_def andThen_def lift_def
        py_getitem_def ok_def split: sum.splits)

theorem twisted_type_passes_descriptor_witness:
  "map_of [(''type'', PStr ''twisted''), (''server_string'', PStr ''tcp:8080''),
           (''client_string'', PStr ''tcp:localhost:8080'')] ''type'' = Some (PStr ''twisted'') \<and>
   create_listening_endpoint_from_config example_env
     [(''type'', PStr ''twisted''), (''server_string'', PStr ''tcp:8080''),
      (''client_string'', PStr ''tcp:localhost:8080'')] ''/node'' example_world
   = (Inr (ServerFromString ''tcp:8080''),
      [(''type'', PStr ''twisted''), (''server_string'', PStr ''tcp:8080''),
       (''client_string'', PStr ''tcp:localhost:8080'')], example_world) \<and>
   create_connecting_endpoint_from_config example_env
     [(''type'', PStr ''twisted''), (''server_string'', PStr ''tcp:8080''),
      (''client_string'', PStr ''tcp:localhost:8080'')] ''/node'' example_world
   = (Inr (ClientFromString ''tcp:localhost:8080''),
      [(''type'', PStr ''twisted''), (''server_string'', PStr ''tcp:8080''),
       (''client_string'', PStr ''tcp:localhost:8080'')], example_world)"
  using twisted_type_passes_descriptor[of
      "[(''type'', PStr ''twisted''), (''server_string'', PStr ''tcp:8080''),
        (''client_string'', PStr ''tcp:localhost:8080'')]"
      example_env "''/node''" example_world]
  by (simp add: example_env_def)

text \<open>
  C8. For a configuration whose type is none of the tags the listening resolver knows
  (\<^verbatim>\<open>tcp\<close>, \<^verbatim>\<open>unix\<close>, \<^verbatim>\<open>twisted\<close>, \<^verbatim>\<open>onion\<close>), listening resolution fails with the
  exception "invalid endpoint type" carrying that type; for one whose type is none of the
  tags the connecting resolver knows (\<^verbatim>\<open>tcp\<close>, \<^verbatim>\<open>unix\<close>, \<^verbatim>\<open>twisted\<close>, \<^verbatim>\<open>tor\<close>),
  connecting resolution fails in the same way. Both leave the world as it was: no event of
  any kind (no socket, no file read, written or removed) and the same files.
\<close>

theorem unknown_type_fails_without_effect:
  assumes "map_of config ''type'' = Some t"
  shows "(t \<notin> {PStr ''tcp'', PStr ''unix'', PStr ''twisted'', PStr ''onion''} \<longrightarrow>
            create_listening_endpoint_from_config env config cbdir w
              = (Inl (InvalidEndpointType t), config, w)) \<and>
         (t \<notin> {PStr ''tcp'', PStr ''unix'', PStr ''twisted'', PStr ''tor''} \<longrightarrow>
            create_connecting_endpoint_from_config env config cbdir w
              = (Inl (InvalidEndpointType t), config, w))"
  using assms
  by (simp add: create_listening_endpoint_from_config_def
        create_connecting_endpoint_from_config_def with_config_def andThen_def lift_def
        py_getitem_def raise_def)

theorem unknown_type_fails_without_effect_witness:
  "map_of [(''type'', PStr ''quic''), (''port'', PInt 8080)] ''type'' = Some (PStr ''quic'') \<and>
   PStr ''quic'' \<notin> {PStr ''tcp'', PStr ''unix'', PStr ''twisted'', PStr ''onion''} \<and>
   PStr ''quic'' \<notin> {PStr ''tcp'', PStr ''unix'', PStr ''twisted'', PStr ''tor''} \<and>
   create_listening_endpoint_from_config example_env
     [(''type'', PStr ''quic''), (''port'', PInt 8080)] ''/node'' example_world
   = (Inl (InvalidEndpointType (PStr ''quic'')),
      [(''type'', PStr ''quic''), (''port'', PInt 8080)], example_world) \<and>
   create_connecting_endpoint_from_config example_env
     [(''type'', PStr ''quic''), (''port'', PInt 8080)] ''/node'' example_world
   = (Inl (InvalidEndpointType (PStr ''quic'')),
      [(''type'', PStr ''quic''), (''port'', PInt 8080)], example_world)"
  using unknown_type_fails_without_effect[of
      "[(''type'', PStr ''quic''), (''port'', PInt 8080)]" "PStr ''quic''"
      example_env "''/node''" example_world]
  by simp

subsection \<open>Ports\<close>

lemma find_append_first:
  "find P (xs @ ys) = (case find P xs of None \<Rightarrow> find P ys | Some x \<Rightarrow> Some x)"
  by (induction xs) auto

lemma find_upto_first:
  assumes "low \<le> p" and "p \<le> high" and "P p" and "\<forall>q. low \<le> q \<and> q < p \<longrightarrow> \<not> P q"
  shows "find P [low..high] = Some p"
proof -
  have split: "[low..high] = [low..p - 1] @ p # [p + 1..high]"
    using assms(1,2) by (rule upto_split3)
  have "find P [low..p - 1] = None"
    using assms(4) by (auto simp: find_None_iff)
  with assms(3) show ?thesis
    by (simp add: split find_append_first)
qed

lemma map_of_setitem: "map_of (py_setitem config k v) = (map_of config)(k \<mapsto> v)"
  by (simp add: py_setitem_def update_conv')

lemma with_config_after: "fst (snd (with_config config m w)) = config"
  by (simp add: with_config_def split: prod.splits)

text \<open>
  C6. Listening-port creation settles the port first, on the world as it found it:
  with a \<^verbatim>\<open>portrange\<close> \<^verbatim>\<open>[low, high]\<close> the port is the first free port of the range on
  the configured interface; otherwise, with \<^verbatim>\<open>port\<close> absent or null, it is the free
  port the operating system gives; otherwise it is the configured value, as it is. The
  rest of the function then runs on the config holding that port.
\<close>

theorem listening_port_policy:
  "(\<forall>low high p.
      map_of config ''portrange'' = Some (PList [PInt low, PInt high]) \<and>
      low \<le> p \<and> p \<le> high \<and> port_free env (py_get config ''interface'' (PStr [])) p \<and>
      (\<forall>q. low \<le> q \<and> q < p \<longrightarrow> \<not> port_free env (py_get config ''interface'' (PStr [])) q)
      \<longrightarrow> resolve_port env config = Inr (py_setitem config ''port'' (PInt p))) \<and>
   (\<forall>p.
      map_of config ''portrange'' = None \<and>
      (map_of config ''port'' = None \<or> map_of config ''port'' = Some PNone) \<and>
      os_free_port env (py_get config ''interface'' (PStr [])) = Inr p
      \<longrightarrow> resolve_port env config = Inr (py_setitem config ''port'' (PInt p))) \<and>
   (\<forall>v.
      map_of config ''portrange'' = None \<and> map_of config ''port'' = Some v \<and> v \<noteq> PNone
      \<longrightarrow> resolve_port env config = Inr config) \<and>
   (\<forall>config'.
      resolve_port env config = Inr config'
      \<longrightarrow> create_listening_port_from_config env config cbdir w
            = with_config config' (listen_resolved env config' cbdir) w) \<and>
   (\<forall>v. map_of (py_setitem config ''port'' v) ''port'' = Some v)"
  by (auto simp: resolve_port_def first_free_tcp_port_def get_free_tcp_port_def py_in_def
        find_upto_first create_listening_port_from_config_def map_of_setitem)

theorem listening_port_policy_witness:
  "resolve_port example_env [(''type'', PStr ''tcp''), (''portrange'', PList [PInt 9000, PInt 9002])]
     = Inr [(''type'', PStr ''tcp''), (''portrange'', PList [PInt 9000, PInt 9002]),
            (''port'', PInt 9002)] \<and>
   resolve_port example_env [(''type'', PStr ''tcp''), (''port'', PNone)]
     = Inr [(''type'', PStr ''tcp''), (''port'', PInt 49152)] \<and>
   resolve_port example_env [(''type'', PStr ''tcp''), (''port'', PInt 8080)]
     = Inr [(''type'', PStr ''tcp''), (''port'', PInt 8080)] \<and>
   \<not> port_free example_env (PStr []) 9000 \<and> \<not> port_free example_env (PStr []) 9001 \<and>
   port_free example_env (PStr []) 9002 \<and> os_free_port example_env (PStr []) = Inr 49152"
proof -
  have bound: "\<forall>q::int. 9000 \<le> q \<and> q < 9002 \<longrightarrow> \<not> (q \<noteq> 9000 \<and> q \<noteq> 9001)"
    by presburger
  have "resolve_port example_env
          [(''type'', PStr ''tcp''), (''portrange'', PList [PInt 9000, PInt 9002])]
        = Inr (py_setitem [(''type'', PStr ''tcp''), (''portrange'', PList [PInt 9000, PInt 9002])]
                 ''port'' (PInt 9002))"
    using bound
    by (intro listening_port_policy[THEN conjunct1, rule_format, of _ 9000 9002])
       (simp add: example_env_def)
  moreover have "resolve_port example_env [(''type'', PStr ''tcp''), (''port'', PNone)]
        = Inr (py_setitem [(''type'', PStr ''tcp''), (''port'', PNone)] ''port'' (PInt 49152))"
    by (intro listening_port_policy[THEN conjunct2, THEN conjunct1, rule_format])
       (simp add: example_env_def)
  moreover have "resolve_port example_env [(''type'', PStr ''tcp''), (''port'', PInt 8080)]
        = Inr [(''type'', PStr ''tcp''), (''port'', PInt 8080)]"
    by (intro listening_port_policy[THEN conjunct2, THEN conjunct2, THEN conjunct1, rule_format,
          of _ "PInt 8080"])
       simp
  ultimately show ?thesis
    by (simp add: py_setitem_def example_env_def)
qed

text \<open>
  C7 as stated fails: listening-port creation on a config without a port writes the port
  it settled on into the caller's dict.
\<close>

theorem config_written_counterexample:
  "fst (snd (create_listening_port_from_config example_env [(''type'', PStr ''tcp'')]
               ''/node'' example_world))
     = [(''type'', PStr ''tcp''), (''port'', PInt 49152)] \<and>
   [(''type'', PStr ''tcp''), (''port'', PInt 49152)] \<noteq> [(''type'', PStr ''tcp'')]"
  by (simp add: create_listening_port_from_config_def resolve_port_def get_free_tcp_port_def
        with_config_after py_in_def py_get_def py_setitem_def example_env_def)

text \<open>
  C7, amended. Listening-endpoint, connecting-endpoint and connecting-port creation leave
  the caller's configuration as it was. Listening-port creation leaves it as it was or
  sets its \<^verbatim>\<open>port\<close> to an integer, every other key keeping its value; it leaves it as it
  was whenever no \<^verbatim>\<open>portrange\<close> is configured and \<^verbatim>\<open>port\<close> is present and not null.
\<close>

theorem config_after_resolution:
  "fst (snd (create_listening_endpoint_from_config env config cbdir w)) = config \<and>
   fst (snd (create_connecting_endpoint_from_config env config cbdir w)) = config \<and>
   fst (snd (create_connecting_port_from_config env config cbdir w)) = config \<and>
   (fst (snd (create_listening_port_from_config env config cbdir w)) = config \<or>
    (\<exists>p. fst (snd (create_listening_port_from_config env config cbdir w))
            = py_setitem config ''port'' (PInt p))) \<and>
   (\<forall>k. k \<noteq> ''port'' \<longrightarrow>
      map_of (fst (snd (create_listening_port_from_config env config cbdir w))) k
        = map_of config k) \<and>
   (map_of config ''portrange'' = None \<and> map_of config ''port'' \<noteq> None \<and>
    map_of config ''port'' \<noteq> Some PNone \<longrightarrow>
      fst (snd (create_listening_port_from_config env config cbdir w)) = config)"
proof -
  have "fst (snd (create_listening_port_from_config env config cbdir w))
          = (case resolve_port env config of Inl e \<Rightarrow> config | Inr config' \<Rightarrow> config')"
    by (simp add: create_listening_port_from_config_def with_config_after split: sum.splits)
  moreover have "resolve_port env config = Inr config' \<Longrightarrow>
      config' = config \<or> (\<exists>p. config' = py_setitem config ''port'' (PInt p))" for config'
    by (auto simp: resolve_port_def split: option.splits sum.splits if_splits)
  moreover have "map_of config ''portrange'' = None \<Longrightarrow> map_of config ''port'' \<noteq> None \<Longrightarrow>
      map_of config ''port'' \<noteq> Some PNone \<Longrightarrow> resolve_port env config = Inr config"
    by (simp add: resolve_port_def py_in_def)
  ultimately show ?thesis
    by (cases "resolve_port env config")
       (auto simp: create_listening_endpoint_from_config_def
          create_connecting_endpoint_from_config_def create_connecting_port_from_config_def
          with_config_after map_of_setitem)
qed

theorem config_after_resolution_witness:
  "map_of [(''type'', PStr ''tcp''), (''port'', PInt 8080)] ''portrange'' = None \<and>
   map_of [(''type'', PStr ''tcp''), (''port'', PInt 8080)] ''port'' = Some (PInt 8080) \<and>
   fst (snd (create_listening_port_from_config example_env
               [(''type'', PStr ''tcp''), (''port'', PInt 8080)] ''/node'' example_world))
     = [(''type'', PStr ''tcp''), (''port'', PInt 8080)] \<and>
   map_of (fst (snd (create_listening_port_from_config example_env
               [(''type'', PStr ''tcp'')] ''/node'' example_world))) ''type''
     = Some (PStr ''tcp'')"
  using config_after_resolution[of example_env
          "[(''type'', PStr ''tcp''), (''port'', PInt 8080)]" "''/node''" example_world]
        config_after_resolution[of example_env "[(''type'', PStr ''tcp'')]" "''/node''"
          example_world, THEN conjunct2, THEN conjunct2, THEN conjunct2, THEN conjunct2,
          THEN conjunct1, rule_format, of "''type''"]
  by simp

text \<open>
  C10 says that listening-port creation never raises to its caller and hands every
  failure of construction over in a failed Deferred. At a config that asks for a shared
  TCP port with TLS and names a key file that does not exist, it raises the
  \<^verbatim>\<open>IOError\<close> to its caller. The same config without \<^verbatim>\<open>shared\<close> takes the other
  branch, which returns the error in a failed Deferred.
\<close>

theorem shared_port_raises_synchronously:
  "fst (create_listening_port_from_config example_env
          [(''type'', PStr ''tcp''), (''port'', PInt 8080), (''shared'', PBool True),
           (''tls'', PDict [(''key'', PStr ''missing.key''),
                            (''certificate'', PStr ''server.crt'')])]
          ''/node'' example_world)
     = Inl (IOError ''/node/missing.key'') \<and>
   fst (create_listening_port_from_config example_env
          [(''type'', PStr ''tcp''), (''port'', PInt 8080),
           (''tls'', PDict [(''key'', PStr ''missing.key''),
                            (''certificate'', PStr ''server.crt'')])]
          ''/node'' example_world)
     = Inr (Failed (IOError ''/node/missing.key''))"
  by (simp add: create_listening_port_from_config_def resolve_port_def listen_resolved_def
        create_listening_endpoint_from_config_def create_tls_server_context_def
        with_config_def io_of_def py_truthy_def py_int_def py_strip_val_def py_strip_def
        example_env_def example_world_def run_defs Let_def)

subsection \<open>The onion service\<close>







text \<open>
  A call of \<^verbatim>\<open>listen\<close> that fails has stopped after the bind, after the control
  connection or after the publication request, and has not touched the files.
\<close>

lemma inlineCallbacks_Failed:
  "inlineCallbacks m w = (Inr (Failed e), w') \<longleftrightarrow> m w = (Inl e, w')"
  by (auto simp: inlineCallbacks_def split: prod.splits sum.splits)

lemma onion_listen_failed:
  assumes "ephemeral_onion_listen env onion w = (Inr (Failed e), w')"
  shows "fs w' = fs w \<and>
         (events w' = events w @
            [EndpointListen (TCP4ServerEndpoint (PInt 0) 50 ''127.0.0.1'')] \<or>
          events w' = events w @
            [EndpointListen (TCP4ServerEndpoint (PInt 0) 50 ''127.0.0.1''),
             TorControlConnect (tor_control_ep onion)] \<or>
          (\<exists>n. events w' = events w @
            [EndpointListen (TCP4ServerEndpoint (PInt 0) 50 ''127.0.0.1''),
             TorControlConnect (tor_control_ep onion),
             Log Info ''Creating onion service (descriptor upload can take 30s or more)'',
             TorCreateOnionService [(onion_port onion, n)] (private_key onion)
               (onion_version onion)]))"
  using assms
  by (auto simp: ephemeral_onion_listen_def inlineCallbacks_Failed Let_def andThen_def
        emit_def log_info_def lift_def ok_def open_write_def exists_def
        split: sum.splits if_splits)

text \<open>
  Outside the shared-port branch, listening-port creation returns a Deferred once the
  type is read; connecting-port creation raises what endpoint construction raises.
\<close>

lemma listen_returns_deferred: "\<exists>d. fst (listen env ep w) = Inr d"
  by (cases ep)
     (auto simp: listen_def ephemeral_onion_listen_def inlineCallbacks_def
        split: prod.splits sum.splits)

lemma plain_path_returns_deferred:
  assumes "map_of config ''type'' = Some t"
    and "\<not> (t = PStr ''tcp'' \<and>
            (py_truthy (py_get config ''shared'' (PBool False)) \<or>
             py_get config ''user_timeout'' PNone \<noteq> PNone))"
  shows "\<exists>d. fst (listen_resolved env config cbdir w) = Inr d"
proof (cases "io_of (create_listening_endpoint_from_config env config cbdir) w")
  case (Pair r w1)
  show ?thesis
  proof (cases r)
    case (Inl e)
    with Pair assms show ?thesis
      by (auto simp: listen_resolved_def Let_def andThen_def lift_def py_getitem_def)
  next
    case (Inr ep)
    with Pair assms listen_returns_deferred[of env ep w1] show ?thesis
      by (auto simp: listen_resolved_def Let_def andThen_def lift_def py_getitem_def)
  qed
qed

lemma connecting_port_propagates:
  assumes "fst (create_connecting_endpoint_from_config env config cbdir w) = Inl e"
  shows "fst (create_connecting_port_from_config env config cbdir w) = Inl e"
  using assms
  by (auto simp: create_connecting_port_from_config_def with_config_def io_of_def andThen_def
        split: prod.splits sum.splits)

end
